theory Spec2Isabelle
  imports Complex_Main
begin

section \<open>The data model of \<^verbatim>\<open>core/cube.py\<close>\<close>

text \<open>
  The exceptions the code of \<^verbatim>\<open>Cube\<close> can raise, by their Python class.
\<close>

datatype error = TypeError | KeyError | ValueError | IndexError | AttributeError

text \<open>
  A numpy array: its shape and its elements in row-major (C) order.  An array is
  well formed when it has as many elements as its shape says.
\<close>

record 'a ndarray =
  shape :: "nat list"
  flat :: "'a list"

definition wf_array :: "'a ndarray \<Rightarrow> bool" where
  "wf_array a = (length (flat a) = prod_list (shape a))"

text \<open>
  The samples are IEEE doubles.  The model keeps what the code tests: a value is NaN, an
  infinity or finite.  A finite value is carried as a real; rounding and overflow are not
  modelled, and no theorem below depends on them.
\<close>

datatype sample = Fin real | PInf | NInf | NaN

fun isnan :: "sample \<Rightarrow> bool" where
  "isnan NaN = True"
| "isnan _ = False"

fun isfinite :: "sample \<Rightarrow> bool" where
  "isfinite (Fin _) = True"
| "isfinite _ = False"

instantiation sample :: "{zero, plus, times}"
begin

definition zero_sample :: sample where
  "zero_sample = Fin 0"

fun plus_sample :: "sample \<Rightarrow> sample \<Rightarrow> sample" where
  "plus_sample NaN _ = NaN"
| "plus_sample _ NaN = NaN"
| "plus_sample PInf NInf = NaN"
| "plus_sample NInf PInf = NaN"
| "plus_sample PInf _ = PInf"
| "plus_sample _ PInf = PInf"
| "plus_sample NInf _ = NInf"
| "plus_sample _ NInf = NInf"
| "plus_sample (Fin a) (Fin b) = Fin (a + b)"

fun signed_inf :: "bool \<Rightarrow> sample" where
  "signed_inf True = PInf"
| "signed_inf False = NInf"

fun times_sample :: "sample \<Rightarrow> sample \<Rightarrow> sample" where
  "times_sample NaN _ = NaN"
| "times_sample _ NaN = NaN"
| "times_sample (Fin a) (Fin b) = Fin (a * b)"
| "times_sample (Fin a) PInf = (if a = 0 then NaN else signed_inf (0 < a))"
| "times_sample (Fin a) NInf = (if a = 0 then NaN else signed_inf (a < 0))"
| "times_sample PInf (Fin b) = (if b = 0 then NaN else signed_inf (0 < b))"
| "times_sample NInf (Fin b) = (if b = 0 then NaN else signed_inf (b < 0))"
| "times_sample PInf PInf = PInf"
| "times_sample NInf NInf = PInf"
| "times_sample PInf NInf = NInf"
| "times_sample NInf PInf = NInf"

instance ..

end

text \<open>
  The FITS header \<^verbatim>\<open>meta\<close> is a dictionary from keywords to numbers or strings.
\<close>

datatype hval = HNum sample | HStr string

type_synonym header = "string \<rightharpoonup> hval"

text \<open>
  \<^verbatim>\<open>class Cube(ndd.NDData)\<close>: the attributes that \<^verbatim>\<open>NDData.__init__\<close> stores.  The unit
  and the coordinate system are astropy objects, opaque here (\<open>'u\<close> and \<open>'w\<close>).  The
  attribute \<^verbatim>\<open>mask\<close> is the field \<open>mask'\<close> and \<^verbatim>\<open>unit\<close> is \<open>unit'\<close>.
\<close>

record ('a, 'u, 'w) Cube =
  data :: "'a ndarray"
  mask' :: "bool ndarray"
  uncertainty :: "unit option"
  wcs :: "'w"
  meta :: header
  unit' :: "'u"

text \<open>
  The astropy functions that \<^verbatim>\<open>Cube.__init__\<close> calls are parameters of the model:
  \<^verbatim>\<open>u.Unit(s, format="fits")\<close>, \<^verbatim>\<open>astrowcs.WCS(meta)\<close> and \<^verbatim>\<open>wcs.dropaxis(n)\<close>, each
  of which either returns or raises.
\<close>

record ('u, 'w) astropy =
  Unit :: "string \<Rightarrow> error + 'u"
  WCS :: "header \<Rightarrow> error + 'w"
  dropaxis :: "'w \<Rightarrow> nat \<Rightarrow> error + 'w"

section \<open>Region resolution: \<^verbatim>\<open>Cube._slice\<close>\<close>

text \<open>
  \<^verbatim>\<open>slice(start, stop)\<close>, and the messages of \<^verbatim>\<open>log.warning\<close> with the arrays they print.
\<close>

record slice =
  start :: int
  stop :: int

datatype warning =
    Negative_lower "int list"
  | Lower_out_of_bounds "int list" "int list"
  | Negative_upper "int list"
  | Upper_out_of_bounds "int list" "int list"

type_synonym triple = "int \<times> int \<times> int"

definition np_array :: "triple \<Rightarrow> int list" where
  "np_array t = (case t of (a, b, c) \<Rightarrow> [a, b, c])"

text \<open>\<^verbatim>\<open>m.any()\<close> of a boolean array.\<close>

definition any :: "bool list \<Rightarrow> bool" where
  "any m = (True \<in> set m)"

text \<open>\<^verbatim>\<open>a[m] = v\<close> for a boolean mask \<^verbatim>\<open>m\<close> and a scalar \<^verbatim>\<open>v\<close>.\<close>

definition setmask :: "int list \<Rightarrow> bool list \<Rightarrow> int \<Rightarrow> int list" where
  "setmask a m v = map (\<lambda>(x, b). if b then v else x) (zip a m)"

text \<open>
  \<^verbatim>\<open>a[m] = vs\<close> for a boolean mask \<^verbatim>\<open>m\<close> and an array \<^verbatim>\<open>vs\<close> with one value for each
  true position of the mask, in order.
\<close>

fun putmask :: "int list \<Rightarrow> bool list \<Rightarrow> int list \<Rightarrow> int list" where
  "putmask (x # xs) (True # ms) (v # vs) = v # putmask xs ms vs"
| "putmask (x # xs) (False # ms) vs = x # putmask xs ms vs"
| "putmask xs _ _ = xs"

text \<open>
  \<^verbatim>\<open>self.data.shape[m]\<close> with \<^verbatim>\<open>m\<close> a numpy boolean array of three elements.  The shape
  of an array is a Python tuple, and a tuple subscript is an integer or a slice: an array
  is converted with \<^verbatim>\<open>__index__\<close>, which numpy refuses for every array that is not a
  single integer.  The subscription raises \<^verbatim>\<open>TypeError\<close> whatever the mask holds.
\<close>

definition tuple_getitem :: "int list \<Rightarrow> bool list \<Rightarrow> error + int list" where
  "tuple_getitem t m = Inl TypeError"

text \<open>
  \<^verbatim>\<open>_slice(self, lower, upper)\<close>.  The four masks are taken from the bounds as given,
  before any correction.  The result is the log of warnings and either the exception
  raised or the three slices.  The comparisons with \<^verbatim>\<open>self.data.shape\<close> are elementwise:
  the samples of a cube have three axes.
\<close>

definition Cube_slice ::
  "('a, 'u, 'w) Cube \<Rightarrow> triple option \<Rightarrow> triple option \<Rightarrow> warning list \<times> (error + slice list)"
where
  "Cube_slice self lower upper =
    (let shp = map int (shape (data self));
         lower0 = (case lower of None \<Rightarrow> [0, 0, 0] | Some t \<Rightarrow> np_array t);
         upper0 = (case upper of None \<Rightarrow> shp | Some t \<Rightarrow> np_array t);
         llc = map (\<lambda>x. x < 0) lower0;
         ulc = map (\<lambda>(x, s). x > s) (zip lower0 shp);
         luc = map (\<lambda>x. x < 0) upper0;
         uuc = map (\<lambda>(x, s). x > s) (zip upper0 shp);
         log1 = (if any llc then [Negative_lower lower0] else []);
         lower1 = (if any llc then setmask lower0 llc 0 else lower0);
         log2 = (if any ulc then log1 @ [Lower_out_of_bounds lower1 shp] else log1)
     in case (if any ulc then map_sum id (putmask upper0 ulc) (tuple_getitem shp ulc)
              else Inr upper0) of
          Inl e \<Rightarrow> (log2, Inl e)
        | Inr upper2 \<Rightarrow>
           (let log3 = (if any luc then log2 @ [Negative_upper upper2] else log2);
                lower3 = (if any luc then setmask lower1 luc 0 else lower1);
                log4 = (if any uuc then log3 @ [Upper_out_of_bounds upper2 shp] else log3)
            in case (if any uuc then map_sum id (putmask upper2 uuc) (tuple_getitem shp uuc)
                     else Inr upper2) of
                 Inl e \<Rightarrow> (log4, Inl e)
               | Inr upper4 \<Rightarrow>
                  (log4, Inr [\<lparr>start = lower3 ! 0, stop = upper4 ! 0\<rparr>,
                              \<lparr>start = lower3 ! 1, stop = upper4 ! 1\<rparr>,
                              \<lparr>start = lower3 ! 2, stop = upper4 ! 2\<rparr>])))"

section \<open>Indexing and slicing of arrays\<close>

text \<open>
  The position of a multi-index in the row-major element list, and its inverse
  \<^verbatim>\<open>np.unravel_index\<close>.  \<^verbatim>\<open>a[index]\<close> with a full tuple of integers reads one element.
\<close>

fun ravel_multi_index :: "nat list \<Rightarrow> nat list \<Rightarrow> nat" where
  "ravel_multi_index (i # idx) (s # shp) = i * prod_list shp + ravel_multi_index idx shp"
| "ravel_multi_index _ _ = 0"

fun unravel_index :: "nat \<Rightarrow> nat list \<Rightarrow> nat list" where
  "unravel_index n [] = []"
| "unravel_index n (s # shp) = (n div prod_list shp) # unravel_index (n mod prod_list shp) shp"

definition getitem :: "'a ndarray \<Rightarrow> nat list \<Rightarrow> 'a" where
  "getitem a idx = flat a ! ravel_multi_index idx (shape a)"

text \<open>
  Python's resolution of one end of a slice of step 1 against an axis of \<open>n\<close> cells
  (\<^verbatim>\<open>slice.indices\<close>): a negative end counts from the end of the axis, and the result is
  cut to \<open>0..n\<close>.  A slice whose resolved stop is not above its start is empty.
\<close>

definition adjust :: "int \<Rightarrow> nat \<Rightarrow> nat" where
  "adjust i n =
     (if i < 0 then (if i + int n < 0 then 0 else nat (i + int n))
      else if int n \<le> i then n else nat i)"

definition indices :: "slice \<Rightarrow> nat \<Rightarrow> nat \<times> nat" where
  "indices s n = (adjust (start s) n, adjust (stop s) n - adjust (start s) n)"

text \<open>
  \<^verbatim>\<open>a[sa] += b[sb]\<close> for arrays of three axes and three slices each.  \<open>indices\<close> gives the
  first cell and the count of cells of each slice.  numpy broadcasts the right-hand view
  to the shape of the left-hand view: on each axis the counts are equal, or the right-hand
  count is 1 and its single cell is used for every cell of the left; anything else raises
  \<^verbatim>\<open>ValueError\<close>.  The addition then runs over the cells of the left-hand view in
  row-major order, each cell updated in place.
\<close>

definition bcast :: "nat \<Rightarrow> nat \<Rightarrow> nat" where
  "bcast m x = (if m = 1 then 0 else x)"

definition iadd_cell ::
  "nat list \<Rightarrow> nat list \<Rightarrow> nat list \<Rightarrow> nat list \<Rightarrow> nat list \<Rightarrow> 'a::plus list \<Rightarrow>
     nat \<times> nat \<times> nat \<Rightarrow> 'a list \<Rightarrow> 'a list"
where
  "iadd_cell sha a0 shb b0 m src xyz d =
     (case xyz of (x, y, z) \<Rightarrow>
        (let p = ravel_multi_index [a0 ! 0 + x, a0 ! 1 + y, a0 ! 2 + z] sha;
             q = ravel_multi_index
                   [b0 ! 0 + bcast (m ! 0) x, b0 ! 1 + bcast (m ! 1) y, b0 ! 2 + bcast (m ! 2) z] shb
         in d[p := d ! p + src ! q]))"

definition iadd_slices ::
  "'a::plus ndarray \<Rightarrow> slice list \<Rightarrow> 'a ndarray \<Rightarrow> slice list \<Rightarrow> error + 'a ndarray"
where
  "iadd_slices a sa b sb =
     (let ra = map (\<lambda>i. indices (sa ! i) (shape a ! i)) [0, 1, 2];
          rb = map (\<lambda>i. indices (sb ! i) (shape b ! i)) [0, 1, 2];
          n = map snd ra;
          m = map snd rb
      in if list_all (\<lambda>i. m ! i = n ! i \<or> m ! i = 1) [0, 1, 2]
         then Inr (a\<lparr>flat :=
                fold (iadd_cell (shape a) (map fst ra) (shape b) (map fst rb) m (flat b))
                  (List.product [0..<n ! 0] (List.product [0..<n ! 1] [0..<n ! 2]))
                  (flat a)\<rparr>)
         else Inl ValueError)"

section \<open>Flux accumulation: \<^verbatim>\<open>Cube.add_flux\<close>\<close>

text \<open>
  One turn of the loop \<^verbatim>\<open>for i in range(0,3)\<close>: the part of the patch used on axis \<open>i\<close>,
  from the resolved slice of the cube, the extent of the patch and the extent of the cube.
\<close>

definition flux_range :: "slice \<Rightarrow> nat \<Rightarrow> nat \<Rightarrow> slice" where
  "flux_range s fshape dshape =
     \<lparr>start = (if start s = 0 then int fshape - stop s else 0),
      stop = (if stop s = int dshape then stop s - start s else int fshape)\<rparr>"

text \<open>
  \<^verbatim>\<open>add_flux(self, flux, lower, upper)\<close> returns nothing and updates \<^verbatim>\<open>self.data\<close> in
  place: the model returns the log and either the exception or the cube after the call.
  The subscript \<^verbatim>\<open>self.data[sli]\<close> is a list of three slices, which the numpy of this code
  reads as the tuple of them, as \<^verbatim>\<open>get_slice\<close> writes it out.
  A patch of fewer than three axes raises \<^verbatim>\<open>IndexError\<close> (at \<^verbatim>\<open>flux.shape[i]\<close> or at the
  subscript with three slices); a patch of more than three axes gives a view of more
  axes than the left-hand side has, which the in-place addition refuses with
  \<^verbatim>\<open>ValueError\<close>.
\<close>

definition Cube_add_flux ::
  "('a::plus, 'u, 'w) Cube \<Rightarrow> 'a ndarray \<Rightarrow> triple option \<Rightarrow> triple option \<Rightarrow>
     warning list \<times> (error + ('a, 'u, 'w) Cube)"
where
  "Cube_add_flux self flux lower upper =
     (case Cube_slice self lower upper of
        (msgs, Inl e) \<Rightarrow> (msgs, Inl e)
      | (msgs, Inr sli) \<Rightarrow>
          if length (shape flux) < 3 then (msgs, Inl IndexError)
          else if 3 < length (shape flux) then (msgs, Inl ValueError)
          else
            (let fsl = map (\<lambda>i. flux_range (sli ! i) (shape flux ! i) (shape (data self) ! i))
                         [0, 1, 2]
             in case iadd_slices (data self) sli flux fsl of
                  Inl e \<Rightarrow> (msgs, Inl e)
                | Inr d \<Rightarrow> (msgs, Inr (self\<lparr>data := d\<rparr>))))"

section \<open>Construction: \<^verbatim>\<open>Cube.__init__\<close> and \<^verbatim>\<open>Cube.empty_like\<close>\<close>

text \<open>\<^verbatim>\<open>np.isnan(a)\<close>, \<^verbatim>\<open>np.zeros_like(a)\<close>, \<^verbatim>\<open>a.sum(axis=0)\<close> and \<^verbatim>\<open>a*bscale+bzero\<close>.\<close>

definition np_isnan :: "sample ndarray \<Rightarrow> bool ndarray" where
  "np_isnan a = \<lparr>shape = shape a, flat = map isnan (flat a)\<rparr>"

definition zeros_like :: "'a::zero ndarray \<Rightarrow> 'a ndarray" where
  "zeros_like a = \<lparr>shape = shape a, flat = replicate (prod_list (shape a)) 0\<rparr>"

definition sum_axis0 :: "'a::{zero,plus} ndarray \<Rightarrow> 'a ndarray" where
  "sum_axis0 a =
     (case shape a of
        [] \<Rightarrow> a
      | p # rest \<Rightarrow>
          \<lparr>shape = rest,
           flat = map (\<lambda>j. foldl (+) 0 (map (\<lambda>s. flat a ! (s * prod_list rest + j)) [0..<p]))
                    [0..<prod_list rest]\<rparr>)"

definition scale_offset :: "'a::{plus,times} ndarray \<Rightarrow> 'a \<Rightarrow> 'a \<Rightarrow> 'a ndarray" where
  "scale_offset a bscale bzero = a\<lparr>flat := map (\<lambda>x. x * bscale + bzero) (flat a)\<rparr>"

text \<open>\<^verbatim>\<open>bsu.lower()\<close> and \<^verbatim>\<open>bsu.replace("jy","Jy")\<close> on a byte string.\<close>

definition lower_char :: "char \<Rightarrow> char" where
  "lower_char c =
     (let n = (of_char c :: nat) in if 65 \<le> n \<and> n \<le> 90 then char_of (n + 32) else c)"

definition str_lower :: "string \<Rightarrow> string" where
  "str_lower s = map lower_char s"

fun replace_jy :: "string \<Rightarrow> string" where
  "replace_jy (a # b # cs) =
     (if a = CHR ''j'' \<and> b = CHR ''y'' then CHR ''J'' # CHR ''y'' # replace_jy cs
      else a # replace_jy (b # cs))"
| "replace_jy cs = cs"

text \<open>
  Sequencing of statements that may raise: the first exception ends the call.
\<close>

definition sum_bind :: "error + 'a \<Rightarrow> ('a \<Rightarrow> error + 'b) \<Rightarrow> error + 'b" where
  "sum_bind r f = (case r of Inl e \<Rightarrow> Inl e | Inr v \<Rightarrow> f v)"

text \<open>
  \<^verbatim>\<open>meta[key]\<close> raises \<^verbatim>\<open>KeyError\<close> on a missing keyword.  A header value that is not
  a string has no method \<^verbatim>\<open>lower\<close> (\<^verbatim>\<open>AttributeError\<close>), and one that is a string cannot
  be multiplied with or added to an array of doubles (\<^verbatim>\<open>TypeError\<close>).
\<close>

definition lookup :: "header \<Rightarrow> string \<Rightarrow> error + hval" where
  "lookup m k = (case m k of None \<Rightarrow> Inl KeyError | Some v \<Rightarrow> Inr v)"

fun as_str :: "hval \<Rightarrow> error + string" where
  "as_str (HStr s) = Inr s"
| "as_str (HNum _) = Inl AttributeError"

fun as_num :: "hval \<Rightarrow> error + sample" where
  "as_num (HNum x) = Inr x"
| "as_num (HStr _) = Inl TypeError"

text \<open>
  \<^verbatim>\<open>Cube.__init__(self, data, meta)\<close>, statement by statement.  The test of the number of
  axes comes after the unit is parsed and before the samples are summed.
  \<^verbatim>\<open>NDData.__init__\<close> stores its arguments as they are.
\<close>

definition Cube_init ::
  "('u, 'w) astropy \<Rightarrow> sample ndarray \<Rightarrow> header \<Rightarrow> error + (sample, 'u, 'w) Cube"
where
  "Cube_init ap data0 meta0 =
     (let mask0 = np_isnan data0 in
      sum_bind (lookup meta0 ''BSCALE'') (\<lambda>bscale.
      sum_bind (lookup meta0 ''BZERO'') (\<lambda>bzero.
      sum_bind (lookup meta0 ''BUNIT'') (\<lambda>bsu.
      sum_bind (as_str bsu) (\<lambda>s.
      sum_bind (Unit ap (replace_jy (str_lower s))) (\<lambda>bunit.
      if length (shape data0) \<noteq> 4 then Inl TypeError
      else
        sum_bind (as_num bscale) (\<lambda>sc.
        sum_bind (as_num bzero) (\<lambda>z.
        sum_bind (WCS ap meta0) (\<lambda>w.
        sum_bind (dropaxis ap w 3) (\<lambda>w'.
          Inr \<lparr>data = scale_offset (sum_axis0 data0) sc z, mask' = mask0,
               uncertainty = None, wcs = w', meta = meta0, unit' = bunit\<rparr>))))))))))"

text \<open>\<^verbatim>\<open>empty_like(self)\<close>: a cube built from a zero array shaped like the samples.\<close>

definition Cube_empty_like ::
  "('u, 'w) astropy \<Rightarrow> (sample, 'u, 'w) Cube \<Rightarrow> error + (sample, 'u, 'w) Cube"
where
  "Cube_empty_like ap self = Cube_init ap (zeros_like (data self)) (meta self)"

section \<open>Extrema: \<^verbatim>\<open>Cube.max\<close> and \<^verbatim>\<open>Cube.min\<close>\<close>

text \<open>
  The comparison \<^verbatim>\<open><\<close> of doubles, false when either side is NaN, and \<^verbatim>\<open>np.argmax\<close>
  and \<^verbatim>\<open>np.argmin\<close> of a flattened array without NaN: the first position of the extreme
  value, \<^verbatim>\<open>ValueError\<close> on an empty array.
\<close>

fun sless :: "sample \<Rightarrow> sample \<Rightarrow> bool" where
  "sless NaN _ = False"
| "sless _ NaN = False"
| "sless PInf _ = False"
| "sless _ PInf = True"
| "sless _ NInf = False"
| "sless NInf _ = True"
| "sless (Fin a) (Fin b) = (a < b)"

fun argbest_from :: "(sample \<Rightarrow> sample \<Rightarrow> bool) \<Rightarrow> sample list \<Rightarrow> nat \<Rightarrow> nat \<Rightarrow> sample \<Rightarrow> nat" where
  "argbest_from better [] i bi bv = bi"
| "argbest_from better (x # xs) i bi bv =
     (if better x bv then argbest_from better xs (Suc i) i x
      else argbest_from better xs (Suc i) bi bv)"

definition argmax :: "sample list \<Rightarrow> error + nat" where
  "argmax xs = (case xs of [] \<Rightarrow> Inl ValueError
                | x # rest \<Rightarrow> Inr (argbest_from (\<lambda>a b. sless b a) rest 1 0 x))"

definition argmin :: "sample list \<Rightarrow> error + nat" where
  "argmin xs = (case xs of [] \<Rightarrow> Inl ValueError
                | x # rest \<Rightarrow> Inr (argbest_from sless rest 1 0 x))"

text \<open>
  \<^verbatim>\<open>np.nanargmax(a)\<close> and \<^verbatim>\<open>np.nanargmin(a)\<close>: every NaN is replaced by minus
  (plus) infinity, the position of the extreme is taken, and an array that holds nothing
  but NaN raises \<^verbatim>\<open>ValueError\<close>.
\<close>

definition replace_nan :: "sample list \<Rightarrow> sample \<Rightarrow> sample list" where
  "replace_nan xs v = map (\<lambda>x. if isnan x then v else x) xs"

definition nanargmax :: "sample ndarray \<Rightarrow> error + nat" where
  "nanargmax a =
     (case argmax (replace_nan (flat a) NInf) of
        Inl e \<Rightarrow> Inl e
      | Inr res \<Rightarrow> if list_all isnan (flat a) then Inl ValueError else Inr res)"

definition nanargmin :: "sample ndarray \<Rightarrow> error + nat" where
  "nanargmin a =
     (case argmin (replace_nan (flat a) PInf) of
        Inl e \<Rightarrow> Inl e
      | Inr res \<Rightarrow> if list_all isnan (flat a) then Inl ValueError else Inr res)"

text \<open>
  \<^verbatim>\<open>max(self)\<close> and \<^verbatim>\<open>min(self)\<close> read the samples and assign no attribute: each is a
  function of the cube, which is the same after the call as before.
\<close>

definition Cube_max :: "(sample, 'u, 'w) Cube \<Rightarrow> error + (sample \<times> nat list)" where
  "Cube_max self =
     (case nanargmax (data self) of
        Inl e \<Rightarrow> Inl e
      | Inr n \<Rightarrow>
          (let index = unravel_index n (shape (data self));
               y = getitem (data self) index
           in Inr (y, index)))"

definition Cube_min :: "(sample, 'u, 'w) Cube \<Rightarrow> error + (sample \<times> nat list)" where
  "Cube_min self =
     (case nanargmin (data self) of
        Inl e \<Rightarrow> Inl e
      | Inr n \<Rightarrow>
          (let index = unravel_index n (shape (data self));
               y = getitem (data self) index
           in Inr (y, index)))"

section \<open>Requested regions\<close>

text \<open>
  A request \<open>l..u\<close> on an axis of \<open>s\<close> cells, for a patch of \<open>t\<close> cells on that axis.  It
  is inside the axis when \<open>0 \<le> l \<le> u \<le> s\<close>; it hangs over the lower edge when it starts
  \<open>-l\<close> cells below 0 and stops strictly below \<open>s\<close>.  In both cases the patch has the
  extent of the request.  A cell \<open>(i, j, k)\<close> of the cube is in the requested region when each
  of its coordinates is within the request of its axis.
\<close>

definition axis_inside :: "int \<Rightarrow> int \<Rightarrow> nat \<Rightarrow> nat \<Rightarrow> bool" where
  "axis_inside l u s t = (0 \<le> l \<and> l \<le> u \<and> u \<le> int s \<and> int t = u - l)"

definition axis_below :: "int \<Rightarrow> int \<Rightarrow> nat \<Rightarrow> nat \<Rightarrow> bool" where
  "axis_below l u s t = (l < 0 \<and> 0 \<le> u \<and> u < int s \<and> int t = u - l)"

definition in_region :: "triple \<Rightarrow> triple \<Rightarrow> nat \<Rightarrow> nat \<Rightarrow> nat \<Rightarrow> bool" where
  "in_region lower upper i j k =
     (case (lower, upper) of ((l0, l1, l2), (u0, u1, u2)) \<Rightarrow>
        l0 \<le> int i \<and> int i < u0 \<and> l1 \<le> int j \<and> int j < u1 \<and> l2 \<le> int k \<and> int k < u2)"

section \<open>Well-formed metadata\<close>

text \<open>
  The header holds what the constructor reads: numbers under \<^verbatim>\<open>BSCALE\<close> and \<^verbatim>\<open>BZERO\<close>, a
  string under \<^verbatim>\<open>BUNIT\<close> that astropy parses as a unit once its case is normalised, and a
  coordinate system from which the fourth axis can be dropped.
\<close>

definition header_ok :: "('u, 'w) astropy \<Rightarrow> header \<Rightarrow> bool" where
  "header_ok ap m =
     (case m ''BSCALE'' of Some (HNum _) \<Rightarrow>
        (case m ''BZERO'' of Some (HNum _) \<Rightarrow>
           (case m ''BUNIT'' of Some (HStr s) \<Rightarrow>
              (case Unit ap (replace_jy (str_lower s)) of Inr _ \<Rightarrow>
                 (case WCS ap m of Inr w \<Rightarrow>
                    (case dropaxis ap w 3 of Inr _ \<Rightarrow> True | Inl _ \<Rightarrow> False)
                  | Inl _ \<Rightarrow> False)
               | Inl _ \<Rightarrow> False)
            | _ \<Rightarrow> False)
         | _ \<Rightarrow> False)
      | _ \<Rightarrow> False)"

section \<open>Example inputs\<close>

text \<open>
  A cube of shape \<open>(4, 5, 6)\<close> holding zeros, as built from an input of shape
  \<open>(1, 4, 5, 6)\<close>; the unit and the coordinate system play no part in what follows.
\<close>

definition cube456 :: "(sample, unit, unit) Cube" where
  "cube456 =
     \<lparr>data = \<lparr>shape = [4, 5, 6], flat = replicate 120 (Fin 0)\<rparr>,
      mask' = \<lparr>shape = [1, 4, 5, 6], flat = replicate 120 False\<rparr>,
      uncertainty = None, wcs = (), meta = Map.empty, unit' = ()\<rparr>"

text \<open>
  A stand-in for astropy: one unit string is known, a coordinate system is the number of
  its axes.  A header with the three keywords, as CASA writes the unit.  Two raw inputs of
  shape \<open>(1, 1, 1, 2)\<close> and the cubes the constructor builds from them.
\<close>

definition astropy_example :: "(string, nat) astropy" where
  "astropy_example =
     \<lparr>Unit = (\<lambda>s. if s = ''Jy/beam'' then Inr s else Inl ValueError),
      WCS = (\<lambda>h. Inr 4),
      dropaxis = (\<lambda>w n. if n < w then Inr (w - 1) else Inl IndexError)\<rparr>"

definition header_example :: header where
  "header_example =
     [''BSCALE'' \<mapsto> HNum (Fin 1), ''BZERO'' \<mapsto> HNum (Fin 0), ''BUNIT'' \<mapsto> HStr ''JY/BEAM'']"

definition raw_all_nan :: "sample ndarray" where
  "raw_all_nan = \<lparr>shape = [1, 1, 1, 2], flat = [NaN, NaN]\<rparr>"

definition cube_all_nan :: "(sample, string, nat) Cube" where
  "cube_all_nan =
     \<lparr>data = \<lparr>shape = [1, 1, 2], flat = [NaN, NaN]\<rparr>,
      mask' = \<lparr>shape = [1, 1, 1, 2], flat = [True, True]\<rparr>,
      uncertainty = None, wcs = 3, meta = header_example, unit' = ''Jy/beam''\<rparr>"

definition raw_inf_nan :: "sample ndarray" where
  "raw_inf_nan = \<lparr>shape = [1, 1, 1, 2], flat = [PInf, NaN]\<rparr>"

definition cube_inf_nan :: "(sample, string, nat) Cube" where
  "cube_inf_nan =
     \<lparr>data = \<lparr>shape = [1, 1, 2], flat = [PInf, NaN]\<rparr>,
      mask' = \<lparr>shape = [1, 1, 1, 2], flat = [False, True]\<rparr>,
      uncertainty = None, wcs = 3, meta = header_example, unit' = ''Jy/beam''\<rparr>"

text \<open>
  A cube of shape \<open>(2, 2, 3)\<close> whose samples are their own positions, and three patches.
\<close>

definition cube223 :: "(int, unit, unit) Cube" where
  "cube223 =
     \<lparr>data = \<lparr>shape = [2, 2, 3], flat = [0, 1, 2, 3, 4, 5, 6, 7, 8, 9, 10, 11]\<rparr>,
      mask' = \<lparr>shape = [1, 2, 2, 3], flat = replicate 12 False\<rparr>,
      uncertainty = None, wcs = (), meta = Map.empty, unit' = ()\<rparr>"

definition patch112 :: "int ndarray" where
  "patch112 = \<lparr>shape = [1, 1, 2], flat = [100, 200]\<rparr>"

definition patch114 :: "int ndarray" where
  "patch114 = \<lparr>shape = [1, 1, 4], flat = [100, 200, 300, 400]\<rparr>"

definition patch115 :: "int ndarray" where
  "patch115 = \<lparr>shape = [1, 1, 5], flat = [100, 200, 300, 400, 500]\<rparr>"

section \<open>Region resolution on in-bounds requests\<close>

lemma any_False3: "any [False, False, False] = False"
  by (simp add: any_def)

text \<open>
  C6.  When every component of the requested lower and upper bounds lies between 0 and the
  extent of its axis, \<^verbatim>\<open>_slice\<close> returns the requested bounds as they are, and logs no
  warning.
\<close>

theorem slice_in_bounds_identity:
  assumes "shape (data self) = [s0, s1, s2]"
    and "0 \<le> l0" "l0 \<le> int s0" "0 \<le> l1" "l1 \<le> int s1" "0 \<le> l2" "l2 \<le> int s2"
    and "0 \<le> u0" "u0 \<le> int s0" "0 \<le> u1" "u1 \<le> int s1" "0 \<le> u2" "u2 \<le> int s2"
  shows "Cube_slice self (Some (l0, l1, l2)) (Some (u0, u1, u2)) =
           ([], Inr [\<lparr>start = l0, stop = u0\<rparr>, \<lparr>start = l1, stop = u1\<rparr>, \<lparr>start = l2, stop = u2\<rparr>])"
  using assms by (simp add: Cube_slice_def np_array_def any_False3 not_less[symmetric])

theorem slice_in_bounds_identity_witness:
  "shape (data cube456) = [4, 5, 6] \<and>
   Cube_slice cube456 (Some (1, 0, 6)) (Some (4, 2, 6)) =
     ([], Inr [\<lparr>start = 1, stop = 4\<rparr>, \<lparr>start = 0, stop = 2\<rparr>, \<lparr>start = 6, stop = 6\<rparr>])"
proof -
  have shp: "shape (data cube456) = [4, 5, 6]"
    by (simp add: cube456_def)
  from slice_in_bounds_identity [OF shp, of 1 0 6 4 2 6] shp show ?thesis
    by simp
qed

section \<open>Region resolution on out-of-range requests\<close>

text \<open>
  C1.  The two corrections of lines 77 to 82, run on the cube of shape \<open>(4, 5, 6)\<close>.  A
  lower bound above the shape reaches \<^verbatim>\<open>self.data.shape[ulc]\<close>, which raises: no resolved
  lower bound comes back.  A negative upper bound is logged, the assignment
  \<^verbatim>\<open>lower[luc]=0\<close> changes the lower bound, and the upper bound comes back negative.
\<close>

theorem slice_lower_above_upper_negative:
  "Cube_slice cube456 (Some (5, 0, 0)) (Some (4, 5, 6)) =
     ([Lower_out_of_bounds [5, 0, 0] [4, 5, 6]], Inl TypeError) \<and>
   Cube_slice cube456 (Some (0, 0, 0)) (Some (- 1, 5, 6)) =
     ([Negative_upper [- 1, 5, 6]],
      Inr [\<lparr>start = 0, stop = - 1\<rparr>, \<lparr>start = 0, stop = 5\<rparr>, \<lparr>start = 0, stop = 6\<rparr>])"
  by (simp add: Cube_slice_def cube456_def np_array_def any_def setmask_def tuple_getitem_def)

text \<open>
  C2.  A request inside the cube but for a negative upper bound on the second axis: the
  slice that comes back for that axis stops at \<open>-2\<close>, below 0, and its start has been moved
  from 2 to 0.
\<close>

theorem slice_stop_below_zero:
  "Cube_slice cube456 (Some (1, 2, 3)) (Some (4, - 2, 6)) =
     ([Negative_upper [4, - 2, 6]],
      Inr [\<lparr>start = 1, stop = 4\<rparr>, \<lparr>start = 0, stop = - 2\<rparr>, \<lparr>start = 3, stop = 6\<rparr>])"
  by (simp add: Cube_slice_def cube456_def np_array_def any_def setmask_def tuple_getitem_def)

text \<open>
  C5.  The scenario \<^verbatim>\<open>resolve(lower=(-1,0,0), upper=(100,100,100))\<close> on the cube of shape
  \<open>(4, 5, 6)\<close>: the two corrections are logged, and the second one raises at
  \<^verbatim>\<open>self.data.shape[uuc]\<close> instead of returning \<open>((0,0,0),(4,5,6))\<close>.
\<close>

theorem slice_scenario_raises:
  "Cube_slice cube456 (Some (- 1, 0, 0)) (Some (100, 100, 100)) =
     ([Negative_lower [- 1, 0, 0], Upper_out_of_bounds [100, 100, 100] [4, 5, 6]],
      Inl TypeError)"
  by (simp add: Cube_slice_def cube456_def np_array_def any_def setmask_def tuple_getitem_def)

section \<open>Construction and extrema\<close>

lemma nanargmax_all_nan: "list_all isnan (flat a) \<Longrightarrow> nanargmax a = Inl ValueError"
  by (simp add: nanargmax_def argmax_def split: list.split sum.split)

lemma nanargmin_all_nan: "list_all isnan (flat a) \<Longrightarrow> nanargmin a = Inl ValueError"
  by (simp add: nanargmin_def argmin_def split: list.split sum.split)

lemma shape_sum_axis0: "shape a = p # rest \<Longrightarrow> shape (sum_axis0 a) = rest"
  by (simp add: sum_axis0_def)

lemma Cube_init_Inr:
  assumes "Cube_init ap d m = Inr c"
  shows "\<exists>bscale bzero s bunit sc z w w'.
           m ''BSCALE'' = Some bscale \<and> m ''BZERO'' = Some bzero \<and> m ''BUNIT'' = Some (HStr s) \<and>
           Unit ap (replace_jy (str_lower s)) = Inr bunit \<and> length (shape d) = 4 \<and>
           bscale = HNum sc \<and> bzero = HNum z \<and> WCS ap m = Inr w \<and> dropaxis ap w 3 = Inr w' \<and>
           c = \<lparr>data = scale_offset (sum_axis0 d) sc z, mask' = np_isnan d,
               uncertainty = None, wcs = w', meta = m, unit' = bunit\<rparr>"
  using assms
  by (auto simp: Cube_init_def sum_bind_def lookup_def Let_def
      split: option.splits sum.splits if_splits hval.splits elim!: as_str.elims as_num.elims)

lemma length_shape_sum_axis0: "length (shape a) = 4 \<Longrightarrow> length (shape (sum_axis0 a)) = 3"
  by (cases "shape a") (simp_all add: sum_axis0_def)

lemma str_lower_example: "replace_jy (str_lower ''JY/BEAM'') = ''Jy/beam''"
  by code_simp

lemma samples_all_nan:
  "scale_offset (sum_axis0 raw_all_nan) (Fin 1) (Fin 0) = \<lparr>shape = [1, 1, 2], flat = [NaN, NaN]\<rparr>"
  by code_simp

lemma samples_inf_nan:
  "scale_offset (sum_axis0 raw_inf_nan) (Fin 1) (Fin 0) = \<lparr>shape = [1, 1, 2], flat = [PInf, NaN]\<rparr>"
  by code_simp

lemma init_all_nan: "Cube_init astropy_example raw_all_nan header_example = Inr cube_all_nan"
  by (simp add: Cube_init_def sum_bind_def lookup_def header_example_def astropy_example_def
      cube_all_nan_def str_lower_example samples_all_nan)
     (simp add: raw_all_nan_def np_isnan_def)

lemma init_inf_nan: "Cube_init astropy_example raw_inf_nan header_example = Inr cube_inf_nan"
  by (simp add: Cube_init_def sum_bind_def lookup_def header_example_def astropy_example_def
      cube_inf_nan_def str_lower_example samples_inf_nan)
     (simp add: raw_inf_nan_def np_isnan_def)

text \<open>
  Every cube that the constructor builds from a well-formed array has well-formed samples
  of three axes: the hypotheses on the cube in the theorems on \<^verbatim>\<open>add_flux\<close> below.
\<close>

lemma init_samples_wf:
  assumes "Cube_init ap d m = Inr c"
  shows "wf_array (data c) \<and> length (shape (data c)) = 3"
proof -
  from Cube_init_Inr [OF assms] obtain sc z w' bunit where
    d: "length (shape d) = 4"
    and c: "c = \<lparr>data = scale_offset (sum_axis0 d) sc z, mask' = np_isnan d,
               uncertainty = None, wcs = w', meta = m, unit' = bunit\<rparr>"
    by blast
  from d obtain p rest where pr: "shape d = p # rest"
    by (cases "shape d") auto
  show ?thesis
    using d by (simp add: c wf_array_def scale_offset_def sum_axis0_def pr)
qed

text \<open>
  C3.  \<^verbatim>\<open>empty_like\<close> on a cube that the constructor has built passes the zero array of
  the cube's three-axis samples to the constructor, which wants four axes: the call raises
  \<^verbatim>\<open>TypeError\<close> and returns no cube.
\<close>

theorem empty_like_raises:
  assumes "Cube_init ap d m = Inr c"
  shows "Cube_empty_like ap c = Inl TypeError"
proof -
  from Cube_init_Inr [OF assms] obtain bscale bzero s bunit sc z w w' where
    m: "m ''BSCALE'' = Some bscale" "m ''BZERO'' = Some bzero" "m ''BUNIT'' = Some (HStr s)"
    and u: "Unit ap (replace_jy (str_lower s)) = Inr bunit"
    and d: "length (shape d) = 4"
    and c: "c = \<lparr>data = scale_offset (sum_axis0 d) sc z, mask' = np_isnan d,
               uncertainty = None, wcs = w', meta = m, unit' = bunit\<rparr>"
    by blast
  have "length (shape (zeros_like (data c))) = 3"
    using length_shape_sum_axis0 [OF d] by (simp add: c zeros_like_def scale_offset_def)
  moreover have "meta c = m"
    by (simp add: c)
  ultimately show ?thesis
    by (simp add: Cube_empty_like_def Cube_init_def sum_bind_def lookup_def m u)
qed

theorem empty_like_raises_witness:
  "Cube_init astropy_example raw_all_nan header_example = Inr cube_all_nan \<and>
   Cube_empty_like astropy_example cube_all_nan = Inl TypeError"
  using init_all_nan empty_like_raises [OF init_all_nan] by simp

text \<open>
  C4, as amended.  For a cube that the constructor has built, the mask holds, element by
  element in storage order, the NaN test of the raw input (taken before scale and offset),
  and the samples have three axes: those of the input without the first.
\<close>

theorem init_mask_nan_test:
  assumes "Cube_init ap d m = Inr c"
  shows "flat (mask' c) = map isnan (flat d) \<and> length (shape (data c)) = 3 \<and>
         shape (data c) = tl (shape d)"
proof -
  from Cube_init_Inr [OF assms] obtain sc z w' bunit where
    d: "length (shape d) = 4"
    and c: "c = \<lparr>data = scale_offset (sum_axis0 d) sc z, mask' = np_isnan d,
               uncertainty = None, wcs = w', meta = m, unit' = bunit\<rparr>"
    by blast
  from d obtain p rest where pr: "shape d = p # rest"
    by (cases "shape d") auto
  show ?thesis
    using d by (simp add: c np_isnan_def scale_offset_def shape_sum_axis0 [OF pr] pr)
qed

theorem init_mask_nan_test_witness:
  "Cube_init astropy_example raw_inf_nan header_example = Inr cube_inf_nan \<and>
   flat (mask' cube_inf_nan) = [False, True] \<and> length (shape (data cube_inf_nan)) = 3"
  using init_inf_nan init_mask_nan_test [OF init_inf_nan] by (simp add: raw_inf_nan_def)

text \<open>
  The claim as stated fails on the raw input \<open>[+inf, NaN]\<close> of shape \<open>(1, 1, 1, 2)\<close>: the
  mask does not flag the infinity, so it is not the non-finite test, and it keeps the four
  axes of the input while the samples have three.
\<close>

theorem init_mask_counterexample:
  "Cube_init astropy_example raw_inf_nan header_example = Inr cube_inf_nan \<and>
   flat (mask' cube_inf_nan) \<noteq> map (\<lambda>x. \<not> isfinite x) (flat raw_inf_nan) \<and>
   shape (mask' cube_inf_nan) \<noteq> shape (data cube_inf_nan)"
  using init_inf_nan by (simp add: cube_inf_nan_def raw_inf_nan_def)

text \<open>
  C10.  On a cube whose samples are all NaN, \<^verbatim>\<open>max\<close> and \<^verbatim>\<open>min\<close> raise \<^verbatim>\<open>ValueError\<close>:
  neither returns a value with an index.
\<close>

theorem extrema_all_nan:
  assumes "list_all isnan (flat (data self))"
  shows "Cube_max self = Inl ValueError \<and> Cube_min self = Inl ValueError"
  using assms by (simp add: Cube_max_def Cube_min_def nanargmax_all_nan nanargmin_all_nan)

theorem extrema_all_nan_witness:
  "list_all isnan (flat (data cube_all_nan)) \<and>
   Cube_max cube_all_nan = Inl ValueError \<and> Cube_min cube_all_nan = Inl ValueError"
proof -
  have h: "list_all isnan (flat (data cube_all_nan))"
    by (simp add: cube_all_nan_def)
  from extrema_all_nan [OF h] h show ?thesis
    by simp
qed

text \<open>
  C9, as amended.  With well-formed metadata, construction raises \<^verbatim>\<open>TypeError\<close> and
  returns no cube when the input does not have four axes, and returns a cube when it has.
  It is not the only failure of the core: \<^verbatim>\<open>max\<close> and \<^verbatim>\<open>min\<close> raise on a cube whose
  samples are all NaN.
\<close>

theorem init_fails_iff_not_4d:
  fixes ap :: "('u, 'w) astropy"
  assumes "header_ok ap m"
  shows "(length (shape d) \<noteq> 4 \<longrightarrow> Cube_init ap d m = Inl TypeError) \<and>
         (length (shape d) = 4 \<longrightarrow> (\<exists>c. Cube_init ap d m = Inr c)) \<and>
         (\<forall>c :: (sample, 'u, 'w) Cube. list_all isnan (flat (data c)) \<longrightarrow>
            Cube_max c = Inl ValueError \<and> Cube_min c = Inl ValueError)"
  using assms
  by (auto simp: header_ok_def Cube_init_def sum_bind_def lookup_def Cube_max_def Cube_min_def
      nanargmax_all_nan nanargmin_all_nan
      split: option.splits sum.splits hval.splits)

theorem init_fails_iff_not_4d_witness:
  "header_ok astropy_example header_example \<and>
   Cube_init astropy_example \<lparr>shape = [1, 1, 2], flat = [NaN, NaN]\<rparr> header_example = Inl TypeError \<and>
   (\<exists>c. Cube_init astropy_example raw_all_nan header_example = Inr c)"
proof -
  have h: "header_ok astropy_example header_example"
    by (simp add: header_ok_def header_example_def astropy_example_def str_lower_example)
  have a: "Cube_init astropy_example \<lparr>shape = [1, 1, 2], flat = [NaN, NaN]\<rparr> header_example =
             Inl TypeError"
    using init_fails_iff_not_4d [OF h, of "\<lparr>shape = [1, 1, 2], flat = [NaN, NaN]\<rparr>"] by simp
  have "length (shape raw_all_nan) = 4"
    by (simp add: raw_all_nan_def)
  with init_fails_iff_not_4d [OF h, of raw_all_nan]
  have b: "\<exists>c. Cube_init astropy_example raw_all_nan header_example = Inr c"
    by blast
  from h a b show ?thesis
    by blast
qed

text \<open>
  The claim as stated fails: the constructor builds a cube from an all-NaN input of four
  axes, and \<^verbatim>\<open>max\<close> raises on that cube; and with an empty header the constructor raises
  \<^verbatim>\<open>KeyError\<close> on an input of four axes.
\<close>

theorem only_hard_failure_counterexample:
  "Cube_init astropy_example raw_all_nan header_example = Inr cube_all_nan \<and>
   Cube_max cube_all_nan = Inl ValueError \<and>
   Cube_init astropy_example raw_all_nan Map.empty = Inl KeyError"
  using init_all_nan
  by (simp add: Cube_max_def nanargmax_all_nan cube_all_nan_def Cube_init_def sum_bind_def lookup_def)

section \<open>Flux accumulation\<close>

text \<open>
  Positions in the element list of an array of three axes: they stay below the size of
  the array, and two cells with the same position are the same cell.
\<close>

lemma ravel3: "ravel_multi_index [i, j, k] [s0, s1, s2] = (i * s1 + j) * s2 + k"
  by (simp add: algebra_simps)

lemma cell_lt:
  fixes a b n m :: nat
  assumes "a < n" "b < m"
  shows "a * m + b < n * m"
proof -
  have "a * m + b < Suc a * m"
    using assms(2) by simp
  also have "\<dots> \<le> n * m"
    using assms(1) by (intro mult_le_mono1) simp
  finally show ?thesis .
qed

lemma ravel3_lt:
  fixes i j k s0 s1 s2 :: nat
  assumes "i < s0" "j < s1" "k < s2"
  shows "(i * s1 + j) * s2 + k < s0 * s1 * s2"
  using cell_lt [OF cell_lt [OF assms(1,2)] assms(3)] .

lemma cell_inj:
  fixes a b a' b' m :: nat
  assumes "a * m + b = a' * m + b'" "b < m" "b' < m"
  shows "a = a' \<and> b = b'"
proof -
  have "(a * m + b) div m = a" "(a' * m + b') div m = a'"
    using assms(2,3) by simp_all
  with assms(1) have "a = a'"
    by simp
  with assms(1) show ?thesis
    by simp
qed

lemma ravel3_inj:
  fixes i j k i' j' k' s1 s2 :: nat
  assumes "(i * s1 + j) * s2 + k = (i' * s1 + j') * s2 + k'"
    and "j < s1" "k < s2" "j' < s1" "k' < s2"
  shows "i = i' \<and> j = j' \<and> k = k'"
proof -
  from cell_inj [OF assms(1) assms(3) assms(5)]
  have 1: "i * s1 + j = i' * s1 + j'" and 2: "k = k'"
    by simp_all
  from cell_inj [OF 1 assms(2) assms(4)] 2 show ?thesis
    by simp
qed

lemma fold_upd_miss:
  "q \<notin> p ` set xs \<Longrightarrow> fold (\<lambda>x d. d[p x := d ! p x + g x]) xs d ! q = d ! q"
  by (induction xs arbitrary: d) auto

lemma fold_upd_hit:
  assumes "distinct (map p xs)" "x \<in> set xs" "p x < length d"
  shows "fold (\<lambda>x d. d[p x := d ! p x + g x]) xs d ! p x = d ! p x + g x"
  using assms
proof (induction xs arbitrary: d)
  case Nil
  then show ?case by simp
next
  case (Cons y ys)
  show ?case
  proof (cases "x = y")
    case True
    with Cons.prems(1) have "p x \<notin> p ` set ys"
      by simp
    then have "fold (\<lambda>x d. d[p x := d ! p x + g x]) ys (d[p x := d ! p x + g x]) ! p x =
                 d[p x := d ! p x + g x] ! p x"
      by (rule fold_upd_miss)
    with True Cons.prems(3) show ?thesis
      by simp
  next
    case False
    with Cons.prems have "x \<in> set ys" "p y \<noteq> p x" "distinct (map p ys)"
      by auto
    with Cons.IH [of "d[p y := d ! p y + g y]"] Cons.prems(3) show ?thesis
      by simp
  qed
qed


lemma bcast_id: "x < n \<Longrightarrow> bcast n x = x"
  by (auto simp: bcast_def)

lemma fold_iadd_cell:
  fixes d src :: "'a::plus list"
  assumes fit: "a0 + n0 \<le> s0" "a1 + n1 \<le> s1" "a2 + n2 \<le> s2"
    and len: "length d = s0 * s1 * s2"
    and ijk: "i < s0" "j < s1" "k < s2"
  shows "fold (iadd_cell [s0, s1, s2] [a0, a1, a2] [t0, t1, t2] [b0, b1, b2] [n0, n1, n2] src)
           (List.product [0..<n0] (List.product [0..<n1] [0..<n2])) d ! ((i * s1 + j) * s2 + k) =
         (if a0 \<le> i \<and> i < a0 + n0 \<and> a1 \<le> j \<and> j < a1 + n1 \<and> a2 \<le> k \<and> k < a2 + n2
          then d ! ((i * s1 + j) * s2 + k) +
               src ! (((b0 + (i - a0)) * t1 + (b1 + (j - a1))) * t2 + (b2 + (k - a2)))
          else d ! ((i * s1 + j) * s2 + k))"
proof -
  let ?xs = "List.product [0..<n0] (List.product [0..<n1] [0..<n2])"
  let ?p = "\<lambda>xyz. case xyz of (x, y, z) \<Rightarrow> ((a0 + x) * s1 + (a1 + y)) * s2 + (a2 + z)"
  let ?g = "\<lambda>xyz. case xyz of (x, y, z) \<Rightarrow>
              src ! (((b0 + bcast n0 x) * t1 + (b1 + bcast n1 y)) * t2 + (b2 + bcast n2 z))"
  let ?q = "(i * s1 + j) * s2 + k"
  have cell: "iadd_cell [s0, s1, s2] [a0, a1, a2] [t0, t1, t2] [b0, b1, b2] [n0, n1, n2] src =
                (\<lambda>xyz d. d[?p xyz := d ! ?p xyz + ?g xyz])"
    by (simp add: fun_eq_iff iadd_cell_def ravel3 Let_def del: ravel_multi_index.simps split: prod.split)
  have inj: "inj_on ?p (set ?xs)"
  proof (rule inj_onI)
    fix u v
    assume u: "u \<in> set ?xs" and v: "v \<in> set ?xs" and eq: "?p u = ?p v"
    obtain x y z where uu: "u = (x, y, z)" by (cases u) auto
    obtain x' y' z' where vv: "v = (x', y', z')" by (cases v) auto
    from u v fit have b: "a1 + y < s1" "a2 + z < s2" "a1 + y' < s1" "a2 + z' < s2"
      by (auto simp: uu vv)
    from eq have "((a0 + x) * s1 + (a1 + y)) * s2 + (a2 + z) =
                  ((a0 + x') * s1 + (a1 + y')) * s2 + (a2 + z')"
      by (simp add: uu vv)
    from ravel3_inj [OF this b] show "u = v"
      by (simp add: uu vv)
  qed
  have dist: "distinct (map ?p ?xs)"
    using inj by (simp add: distinct_map distinct_product)
  show ?thesis
  proof (cases "a0 \<le> i \<and> i < a0 + n0 \<and> a1 \<le> j \<and> j < a1 + n1 \<and> a2 \<le> k \<and> k < a2 + n2")
    case True
    let ?x = "(i - a0, j - a1, k - a2)"
    from True have mem: "?x \<in> set ?xs"
      by auto
    from True have px: "?p ?x = ?q"
      by simp
    from True have "bcast n0 (i - a0) = i - a0" "bcast n1 (j - a1) = j - a1"
      "bcast n2 (k - a2) = k - a2"
      by (auto intro: bcast_id)
    then have gx: "?g ?x = src ! (((b0 + (i - a0)) * t1 + (b1 + (j - a1))) * t2 + (b2 + (k - a2)))"
      by (simp only: prod.case)
    have "?p ?x < length d"
      unfolding px len using ijk by (rule ravel3_lt)
    from fold_upd_hit [of ?p ?xs ?x d ?g, OF dist mem this] True show ?thesis
      unfolding cell px gx by simp
  next
    case False
    have "?q \<notin> ?p ` set ?xs"
    proof
      assume "?q \<in> ?p ` set ?xs"
      then obtain x y z where m: "x < n0" "y < n1" "z < n2"
        and eq: "(i * s1 + j) * s2 + k = ((a0 + x) * s1 + (a1 + y)) * s2 + (a2 + z)"
        by auto
      from m fit have "a1 + y < s1" "a2 + z < s2"
        by auto
      from ravel3_inj [OF eq ijk(2,3) this] m False show False
        by simp
    qed
    from fold_upd_miss [of ?q ?p ?xs ?g d, OF this] show ?thesis
      unfolding cell by (simp only: False if_False)
  qed
qed

lemma fold_iadd_cell_length:
  "length (fold (iadd_cell sha a0 shb b0 m src) xs d) = length d"
  by (induction xs arbitrary: d) (simp_all add: iadd_cell_def Let_def split: prod.split)


lemma axis_views:
  assumes "axis_inside l u s t \<or> axis_below l u s t"
  shows "indices \<lparr>start = (if l < 0 then 0 else l), stop = u\<rparr> s = (nat l, nat u - nat l)"
    and "indices (flux_range \<lparr>start = (if l < 0 then 0 else l), stop = u\<rparr> t s) t =
           (nat (- l), nat u - nat l)"
    and "nat l + (nat u - nat l) \<le> s"
  using assms
  by (auto simp: indices_def adjust_def flux_range_def axis_inside_def axis_below_def)

lemma slice_resolved:
  assumes "shape (data self) = [s0, s1, s2]"
    and "axis_inside l0 u0 s0 t0 \<or> axis_below l0 u0 s0 t0"
    and "axis_inside l1 u1 s1 t1 \<or> axis_below l1 u1 s1 t1"
    and "axis_inside l2 u2 s2 t2 \<or> axis_below l2 u2 s2 t2"
  shows "Cube_slice self (Some (l0, l1, l2)) (Some (u0, u1, u2)) =
           (if l0 < 0 \<or> l1 < 0 \<or> l2 < 0 then [Negative_lower [l0, l1, l2]] else [],
            Inr [\<lparr>start = (if l0 < 0 then 0 else l0), stop = u0\<rparr>,
                 \<lparr>start = (if l1 < 0 then 0 else l1), stop = u1\<rparr>,
                 \<lparr>start = (if l2 < 0 then 0 else l2), stop = u2\<rparr>])"
proof -
  have b: "\<not> l0 > int s0" "\<not> l1 > int s1" "\<not> l2 > int s2"
    "\<not> u0 < 0" "\<not> u1 < 0" "\<not> u2 < 0" "\<not> u0 > int s0" "\<not> u1 > int s1" "\<not> u2 > int s2"
    using assms(2-4) by (auto simp: axis_inside_def axis_below_def)
  show ?thesis
    by (simp add: Cube_slice_def np_array_def any_def setmask_def assms(1) b)
qed


lemma getitem3:
  "shape a = [s0, s1, s2] \<Longrightarrow> getitem a [i, j, k] = flat a ! ((i * s1 + j) * s2 + k)"
  by (simp add: getitem_def ravel3 del: ravel_multi_index.simps)

lemma axis_region:
  assumes "axis_inside l u s t \<or> axis_below l u s t"
  shows "(nat l \<le> i \<and> i < nat l + (nat u - nat l)) = (l \<le> int i \<and> int i < u)"
    and "l \<le> int i \<Longrightarrow> nat (- l) + (i - nat l) = nat (int i - l)"
  using assms by (auto simp: axis_inside_def axis_below_def)

lemma add_flux_region:
  fixes self :: "('a::plus, 'u, 'w) Cube"
  assumes shp: "shape (data self) = [s0, s1, s2]"
    and wf: "wf_array (data self)"
    and fshp: "shape flux = [t0, t1, t2]"
    and ax0: "axis_inside l0 u0 s0 t0 \<or> axis_below l0 u0 s0 t0"
    and ax1: "axis_inside l1 u1 s1 t1 \<or> axis_below l1 u1 s1 t1"
    and ax2: "axis_inside l2 u2 s2 t2 \<or> axis_below l2 u2 s2 t2"
  shows "\<exists>d. Cube_add_flux self flux (Some (l0, l1, l2)) (Some (u0, u1, u2)) =
               (if l0 < 0 \<or> l1 < 0 \<or> l2 < 0 then [Negative_lower [l0, l1, l2]] else [],
                Inr (self\<lparr>data := d\<rparr>)) \<and>
             shape d = [s0, s1, s2] \<and> length (flat d) = s0 * s1 * s2 \<and>
             (\<forall>i<s0. \<forall>j<s1. \<forall>k<s2.
                getitem d [i, j, k] =
                  (if in_region (l0, l1, l2) (u0, u1, u2) i j k
                   then getitem (data self) [i, j, k] +
                        getitem flux [nat (int i - l0), nat (int j - l1), nat (int k - l2)]
                   else getitem (data self) [i, j, k]))"
proof -
  let ?n0 = "nat u0 - nat l0" and ?n1 = "nat u1 - nat l1" and ?n2 = "nat u2 - nat l2"
  let ?F = "fold (iadd_cell [s0, s1, s2] [nat l0, nat l1, nat l2] [t0, t1, t2]
                   [nat (- l0), nat (- l1), nat (- l2)] [?n0, ?n1, ?n2] (flat flux))
              (List.product [0..<?n0] (List.product [0..<?n1] [0..<?n2])) (flat (data self))"
  let ?d = "(data self)\<lparr>flat := ?F\<rparr>"
  have len: "length (flat (data self)) = s0 * s1 * s2"
    using wf by (simp add: wf_array_def shp)
  have call: "Cube_add_flux self flux (Some (l0, l1, l2)) (Some (u0, u1, u2)) =
               (if l0 < 0 \<or> l1 < 0 \<or> l2 < 0 then [Negative_lower [l0, l1, l2]] else [],
                Inr (self\<lparr>data := ?d\<rparr>))"
    by (simp add: Cube_add_flux_def slice_resolved [OF shp ax0 ax1 ax2] iadd_slices_def shp fshp
        axis_views(1,2) [OF ax0] axis_views(1,2) [OF ax1] axis_views(1,2) [OF ax2])
  have cells: "getitem ?d [i, j, k] =
                 (if in_region (l0, l1, l2) (u0, u1, u2) i j k
                  then getitem (data self) [i, j, k] +
                       getitem flux [nat (int i - l0), nat (int j - l1), nat (int k - l2)]
                  else getitem (data self) [i, j, k])"
    if ijk: "i < s0" "j < s1" "k < s2" for i j k
  proof -
    let ?q = "(i * s1 + j) * s2 + k"
    note f = fold_iadd_cell [OF axis_views(3) [OF ax0] axis_views(3) [OF ax1] axis_views(3) [OF ax2]
        len ijk, of t0 t1 t2 "nat (- l0)" "nat (- l1)" "nat (- l2)" "flat flux"]
    have new: "getitem ?d [i, j, k] = ?F ! ?q"
      by (simp add: getitem3 shp)
    have old: "getitem (data self) [i, j, k] = flat (data self) ! ?q"
      by (simp add: getitem3 shp)
    show ?thesis
    proof (cases "in_region (l0, l1, l2) (u0, u1, u2) i j k")
      case True
      then have r: "l0 \<le> int i" "int i < u0" "l1 \<le> int j" "int j < u1" "l2 \<le> int k" "int k < u2"
        by (simp_all add: in_region_def)
      then have c: "nat l0 \<le> i \<and> i < nat l0 + ?n0 \<and> nat l1 \<le> j \<and> j < nat l1 + ?n1 \<and>
                    nat l2 \<le> k \<and> k < nat l2 + ?n2"
        using axis_region(1) [OF ax0, of i] axis_region(1) [OF ax1, of j]
          axis_region(1) [OF ax2, of k] by blast
      have "?F ! ?q = flat (data self) ! ?q +
              flat flux ! (((nat (- l0) + (i - nat l0)) * t1 + (nat (- l1) + (j - nat l1))) * t2 +
                           (nat (- l2) + (k - nat l2)))"
        using f unfolding if_P [OF c] .
      also have "\<dots> = flat (data self) ! ?q +
              flat flux ! ((nat (int i - l0) * t1 + nat (int j - l1)) * t2 + nat (int k - l2))"
        unfolding axis_region(2) [OF ax0 r(1)] axis_region(2) [OF ax1 r(3)]
          axis_region(2) [OF ax2 r(5)] ..
      also have "\<dots> = getitem (data self) [i, j, k] +
              getitem flux [nat (int i - l0), nat (int j - l1), nat (int k - l2)]"
        by (simp add: getitem3 shp fshp)
      finally show ?thesis
        unfolding new if_P [OF True] .
    next
      case False
      then have "\<not> (l0 \<le> int i \<and> int i < u0 \<and> l1 \<le> int j \<and> int j < u1 \<and> l2 \<le> int k \<and> int k < u2)"
        by (simp add: in_region_def)
      then have c: "\<not> (nat l0 \<le> i \<and> i < nat l0 + ?n0 \<and> nat l1 \<le> j \<and> j < nat l1 + ?n1 \<and>
                    nat l2 \<le> k \<and> k < nat l2 + ?n2)"
        using axis_region(1) [OF ax0, of i] axis_region(1) [OF ax1, of j]
          axis_region(1) [OF ax2, of k] by blast
      have "?F ! ?q = flat (data self) ! ?q"
        using f unfolding if_not_P [OF c] .
      then show ?thesis
        unfolding new old if_not_P [OF False] .
    qed
  qed
  have "shape ?d = [s0, s1, s2]" "length (flat ?d) = s0 * s1 * s2"
    by (simp_all add: shp len fold_iadd_cell_length)
  with call cells show ?thesis
    by blast
qed

text \<open>
  C7.  When the requested region lies inside the cube on every axis (bounds equal to 0 or
  to the shape included) and the patch has the extents of the region, \<^verbatim>\<open>add_flux\<close> logs
  nothing, raises nothing, and leaves a cube whose samples are the old ones plus the patch
  on the region, cell by cell, and the old ones everywhere else.
\<close>

theorem add_flux_inside:
  fixes self :: "('a::plus, 'u, 'w) Cube"
  assumes "shape (data self) = [s0, s1, s2]"
    and "wf_array (data self)"
    and "shape flux = [t0, t1, t2]"
    and "axis_inside l0 u0 s0 t0" "axis_inside l1 u1 s1 t1" "axis_inside l2 u2 s2 t2"
  shows "\<exists>d. Cube_add_flux self flux (Some (l0, l1, l2)) (Some (u0, u1, u2)) =
               ([], Inr (self\<lparr>data := d\<rparr>)) \<and>
             shape d = [s0, s1, s2] \<and> length (flat d) = s0 * s1 * s2 \<and>
             (\<forall>i<s0. \<forall>j<s1. \<forall>k<s2.
                getitem d [i, j, k] =
                  (if in_region (l0, l1, l2) (u0, u1, u2) i j k
                   then getitem (data self) [i, j, k] +
                        getitem flux [nat (int i - l0), nat (int j - l1), nat (int k - l2)]
                   else getitem (data self) [i, j, k]))"
proof -
  from assms(4-6) have "\<not> (l0 < 0 \<or> l1 < 0 \<or> l2 < 0)"
    by (simp add: axis_inside_def)
  with add_flux_region [OF assms(1-3), of l0 u0 l1 u1 l2 u2] assms(4-6) show ?thesis
    by (simp only: if_False) blast
qed

theorem add_flux_inside_witness:
  "axis_inside 1 2 2 1 \<and> axis_inside 0 1 2 1 \<and> axis_inside 1 3 3 2 \<and>
   (\<exists>d. Cube_add_flux cube223 patch112 (Some (1, 0, 1)) (Some (2, 1, 3)) =
           ([], Inr (cube223\<lparr>data := d\<rparr>)) \<and>
        getitem d [1, 0, 1] = 107 \<and> getitem d [1, 0, 2] = 208 \<and> getitem d [1, 0, 0] = 6)"
proof -
  have shp: "shape (data cube223) = [2, 2, 3]" and wf: "wf_array (data cube223)"
    and fshp: "shape patch112 = [1, 1, 2]"
    by (simp_all add: cube223_def patch112_def wf_array_def)
  have ax: "axis_inside 1 2 2 1" "axis_inside 0 1 2 1" "axis_inside 1 3 3 2"
    by (simp_all add: axis_inside_def)
  from add_flux_inside [OF shp wf fshp ax] obtain d where
    call: "Cube_add_flux cube223 patch112 (Some (1, 0, 1)) (Some (2, 1, 3)) =
             ([], Inr (cube223\<lparr>data := d\<rparr>))"
    and cells: "\<And>i j k. i < 2 \<Longrightarrow> j < 2 \<Longrightarrow> k < 3 \<Longrightarrow>
        getitem d [i, j, k] =
          (if in_region (1, 0, 1) (2, 1, 3) i j k
           then getitem (data cube223) [i, j, k] +
                getitem patch112 [nat (int i - 1), nat (int j - 0), nat (int k - 1)]
           else getitem (data cube223) [i, j, k])"
    by blast
  have "getitem d [1, 0, 1] = 107" "getitem d [1, 0, 2] = 208" "getitem d [1, 0, 0] = 6"
    using cells [of 1 0 1] cells [of 1 0 2] cells [of 1 0 0]
    by (simp_all add: in_region_def getitem_def cube223_def patch112_def)
  with call ax show ?thesis
    by blast
qed

text \<open>
  C8.  Three requests on the cube of shape \<open>(2, 2, 3)\<close>, each hanging over one edge of the
  last axis and inside the cube on the other axes, with a patch of the extents of the
  request.  None adds the overlapping part of the patch.  A request that hangs over the
  upper edge by one cell raises \<^verbatim>\<open>TypeError\<close> in \<^verbatim>\<open>_slice\<close>.  A request that hangs over the
  lower edge by one cell and stops at the upper edge is cropped at both ends of the patch
  (\<^verbatim>\<open>fu[i]=sli[i].stop - sli[i].start\<close> after \<^verbatim>\<open>fl[i]\<close> has moved), and adding two cells to
  three raises \<^verbatim>\<open>ValueError\<close>.  With an overhang of two cells the cropped patch is the one
  cell 300, which is broadcast: the samples 6, 7, 8 become 306, 307, 308 where the
  overlapping patch cells are 300, 400, 500.
\<close>

theorem add_flux_overhang_fails:
  "Cube_add_flux cube223 patch112 (Some (1, 0, 2)) (Some (2, 1, 4)) =
     ([Upper_out_of_bounds [2, 1, 4] [2, 2, 3]], Inl TypeError) \<and>
   Cube_add_flux cube223 patch114 (Some (1, 0, - 1)) (Some (2, 1, 3)) =
     ([Negative_lower [1, 0, - 1]], Inl ValueError) \<and>
   fst (Cube_add_flux cube223 patch115 (Some (1, 0, - 2)) (Some (2, 1, 3))) =
     [Negative_lower [1, 0, - 2]] \<and>
   map_sum id (\<lambda>c. flat (data c))
     (snd (Cube_add_flux cube223 patch115 (Some (1, 0, - 2)) (Some (2, 1, 3)))) =
     Inr [0, 1, 2, 3, 4, 5, 306, 307, 308, 9, 10, 11]"
proof (intro conjI)
  show "Cube_add_flux cube223 patch112 (Some (1, 0, 2)) (Some (2, 1, 4)) =
          ([Upper_out_of_bounds [2, 1, 4] [2, 2, 3]], Inl TypeError)"
    by (simp add: Cube_add_flux_def Cube_slice_def cube223_def patch112_def np_array_def
        any_def setmask_def tuple_getitem_def)
  show "Cube_add_flux cube223 patch114 (Some (1, 0, - 1)) (Some (2, 1, 3)) =
          ([Negative_lower [1, 0, - 1]], Inl ValueError)"
    by (simp add: Cube_add_flux_def Cube_slice_def cube223_def patch114_def np_array_def
        any_def setmask_def tuple_getitem_def iadd_slices_def indices_def adjust_def
        flux_range_def)
  show "fst (Cube_add_flux cube223 patch115 (Some (1, 0, - 2)) (Some (2, 1, 3))) =
          [Negative_lower [1, 0, - 2]]"
    by code_simp
  show "map_sum id (\<lambda>c. flat (data c))
          (snd (Cube_add_flux cube223 patch115 (Some (1, 0, - 2)) (Some (2, 1, 3)))) =
          Inr [0, 1, 2, 3, 4, 5, 306, 307, 308, 9, 10, 11]"
    by code_simp
qed

end
